theory Spec2Isabelle
  imports Complex_Main "HOL-Library.Word"
begin

section \<open>Recipe Reader: the component of \<open>src/app/page.tsx\<close>\<close>

text \<open>
  The repository is one React client component, \<open>RecipeTTSApp\<close>. Its state is a set of
  \<open>useState\<close> cells; its collaborators are the browser's \<open>localStorage\<close>, the
  \<open>speechSynthesis\<close> engine, the clock and the toast hook. The component is modelled as a
  record holding the state cells together with the collaborators, every handler as a function
  on that record, and an execution as a list of events folded over it. Handlers run to
  completion (JavaScript is single-threaded and React batches the setters of one handler), so
  one handler is one atomic step.
\<close>

subsection \<open>Strings\<close>

text \<open>
  A JavaScript string is a sequence of UTF-16 code units. \<open>String.prototype.trim\<close> removes
  leading and trailing WhiteSpace and LineTerminator code points of ECMAScript, all of which
  are single code units.
\<close>

type_synonym jsstring = "16 word list"

definition isWhiteSpace :: "16 word \<Rightarrow> bool" where
  "isWhiteSpace c \<longleftrightarrow>
     c = 0x0009 \<or> c = 0x000A \<or> c = 0x000B \<or> c = 0x000C \<or> c = 0x000D \<or>
     c = 0x0020 \<or> c = 0x00A0 \<or> c = 0x1680 \<or> (0x2000 \<le> c \<and> c \<le> 0x200A) \<or>
     c = 0x2028 \<or> c = 0x2029 \<or> c = 0x202F \<or> c = 0x205F \<or> c = 0x3000 \<or>
     c = 0xFEFF"

definition trim :: "jsstring \<Rightarrow> jsstring" where
  "trim s = rev (dropWhile isWhiteSpace (rev (dropWhile isWhiteSpace s)))"

text \<open>The code units of an ASCII literal of the source.\<close>

definition lit :: "string \<Rightarrow> jsstring" where
  "lit s = map (\<lambda>c. of_nat (of_char c)) s"

text \<open>
  \<open>Date.now().toString()\<close>: the clock reading is an integral number of milliseconds, whose
  \<open>toString\<close> is its decimal numeral, with a minus sign before 1970.
\<close>

function decimal :: "nat \<Rightarrow> jsstring" where
  "decimal n = (if n < 10 then [0x30 + of_nat n]
                else decimal (n div 10) @ [0x30 + of_nat (n mod 10)])"
  by pat_completeness auto
termination
  by (relation "measure (\<lambda>n. n)") auto

declare decimal.simps [simp del]

definition Number_toString :: "int \<Rightarrow> jsstring" where
  "Number_toString n = (if n < 0 then 0x2D # decimal (nat (- n)) else decimal (nat n))"

subsection \<open>Data model\<close>

text \<open>\<open>interface Recipe\<close> and \<open>interface TTSSettings\<close> of the source.\<close>

record Recipe =
  id' :: jsstring
  title :: jsstring
  content :: jsstring
  createdAt :: jsstring

text \<open>
  The three numbers are JavaScript numbers. The component only stores and copies them, so
  they are modelled as reals; no arithmetic is done on them.
\<close>

record TTSSettings =
  rate :: real
  pitch :: real
  volume :: real
  voice :: jsstring

text \<open>The two platform objects the component handles.\<close>

record SpeechSynthesisVoice =
  name :: jsstring
  lang :: jsstring

record SpeechSynthesisUtterance =
  text' :: jsstring
  rate' :: real
  pitch' :: real
  volume' :: real
  voice' :: "SpeechSynthesisVoice option"

datatype variant = Default | Destructive

datatype toast = Toast jsstring jsstring variant

text \<open>
  What can end mounting: \<open>JSON.parse\<close> throwing, or a state setter being handed a value
  that is not of the type the source declares for the cell. The source casts the parsed
  value without a check, so in the second case the component goes on with a state that is
  not of its declared types, where the next read of the cell throws a \<open>TypeError\<close> or
  yields \<open>undefined\<close>; such states are outside the typed states described here.
\<close>

datatype error = SyntaxError | IllTypedValue

subsection \<open>The persisted store\<close>

text \<open>
  Modelled from the spec: the Persisted Store and its JSON codec are the browser's, not code
  of the repository. The spec treats the store as an opaque key-value store holding two
  independent entries. The component observes a stored string in two ways only: whether it
  is truthy (a non-empty string) and what \<open>JSON.parse\<close> does on it. A stored string is
  therefore represented by its class: the empty string, a string on which \<open>JSON.parse\<close>
  throws, a string that parses to a value of the type the source declares for the entry, or
  a string that parses to any other value (\<open>null\<close>, a number, an object of another shape,
  a record with a field missing). \<open>getItem\<close> returns \<open>null\<close> (\<open>None\<close>) for an absent
  entry. \<open>JSON.stringify\<close> produces a string that parses back to the value it was given,
  and \<open>setItem\<close> is taken to succeed.
\<close>

datatype 'a item = EmptyText | CorruptText | JsonText 'a | IllTypedText

text \<open>
  What \<open>JSON.parse\<close> does: it throws, or returns a value that is of the declared type, or
  returns a value that is not. Applied to \<open>null\<close> it returns \<open>null\<close>.
\<close>

datatype 'a parsed = Throws error | WellTyped 'a | IllTyped

record Storage =
  savedRecipes_entry :: "Recipe list item option"
  ttsSettings_entry :: "TTSSettings item option"

fun truthy :: "'a item option \<Rightarrow> bool" where
  "truthy None = False"
| "truthy (Some EmptyText) = False"
| "truthy (Some _) = True"

fun JSON_parse :: "'a item option \<Rightarrow> 'a parsed" where
  "JSON_parse (Some (JsonText v)) = WellTyped v"
| "JSON_parse (Some IllTypedText) = IllTyped"
| "JSON_parse None = IllTyped"
| "JSON_parse _ = Throws SyntaxError"

definition JSON_stringify :: "'a \<Rightarrow> 'a item" where
  "JSON_stringify v = JsonText v"

subsection \<open>The speech engine\<close>

text \<open>
  Modelled from the spec: the Speech Engine is the browser's \<open>speechSynthesis\<close>. It keeps a
  queue of utterances, the first of which is the one being spoken; \<open>speak\<close> appends to the
  queue, \<open>cancel\<close> removes every utterance from it, \<open>pause\<close> and \<open>resume\<close> set the
  global paused flag. \<open>getVoices\<close> returns the current Voice Catalog. The handler property
  \<open>onvoiceschanged\<close> holds the closure \<open>loadVoices\<close>; a closure is represented by the
  value of the one variable it captures, the \<open>ttsSettings\<close> of the render that created it.
\<close>

record SpeechSynthesis =
  queue :: "SpeechSynthesisUtterance list"
  paused :: bool
  voices :: "SpeechSynthesisVoice list"
  onvoiceschanged :: "TTSSettings option"

definition speak :: "SpeechSynthesisUtterance \<Rightarrow> SpeechSynthesis \<Rightarrow> SpeechSynthesis" where
  "speak u e = e\<lparr>queue := queue e @ [u]\<rparr>"

definition cancel :: "SpeechSynthesis \<Rightarrow> SpeechSynthesis" where
  "cancel e = e\<lparr>queue := []\<rparr>"

definition pause :: "SpeechSynthesis \<Rightarrow> SpeechSynthesis" where
  "pause e = e\<lparr>paused := True\<rparr>"

definition resume :: "SpeechSynthesis \<Rightarrow> SpeechSynthesis" where
  "resume e = e\<lparr>paused := False\<rparr>"

subsection \<open>The component\<close>

text \<open>
  The \<open>useState\<close> cells of \<open>RecipeTTSApp\<close>, then its collaborators. \<open>ttsSettings_changed\<close>
  records that \<open>setTTSSettings\<close> has been called since the last render: every call in the
  source passes a freshly built object, so React sees a changed dependency and runs the
  persisting effect after the next render.
\<close>

record world =
  recipe :: jsstring
  recipeTitle :: jsstring
  savedRecipes :: "Recipe list"
  isPlaying :: bool
  isPaused :: bool
  currentUtterance :: "SpeechSynthesisUtterance option"
  availableVoices :: "SpeechSynthesisVoice list"
  showSettings :: bool
  ttsSettings :: TTSSettings
  ttsSettings_changed :: bool
  localStorage :: Storage
  speechSynthesis :: SpeechSynthesis
  toasts :: "toast list"

definition default_ttsSettings :: TTSSettings where
  "default_ttsSettings = \<lparr>rate = 1, pitch = 1, volume = 1, voice = []\<rparr>"

definition initial :: "Storage \<Rightarrow> SpeechSynthesis \<Rightarrow> world" where
  "initial ls eng =
     \<lparr>recipe = [], recipeTitle = [], savedRecipes = [], isPlaying = False, isPaused = False,
      currentUtterance = None, availableVoices = [], showSettings = False,
      ttsSettings = default_ttsSettings, ttsSettings_changed = False,
      localStorage = ls, speechSynthesis = eng, toasts = []\<rparr>"

definition show_toast :: "toast \<Rightarrow> world \<Rightarrow> world" where
  "show_toast t w = w\<lparr>toasts := toasts w @ [t]\<rparr>"

definition setTTSSettings :: "(TTSSettings \<Rightarrow> TTSSettings) \<Rightarrow> world \<Rightarrow> world" where
  "setTTSSettings f w = w\<lparr>ttsSettings := f (ttsSettings w), ttsSettings_changed := True\<rparr>"

subsubsection \<open>Effects\<close>

text \<open>
  Lines 48 to 56: the two loads of the mount effect. \<open>JSON.parse\<close> is not guarded and its
  result is not checked. The flag returned with the state tells whether the setter was
  given a value of the declared type; when it was not, the typed cell is left as it was.
\<close>

definition load_savedRecipes :: "world \<Rightarrow> error + bool \<times> world" where
  "load_savedRecipes w =
     (let saved = savedRecipes_entry (localStorage w) in
      if truthy saved then
        (case JSON_parse saved of
           Throws e \<Rightarrow> Inl e
         | WellTyped rs \<Rightarrow> Inr (True, w\<lparr>savedRecipes := rs\<rparr>)
         | IllTyped \<Rightarrow> Inr (False, w))
      else Inr (True, w))"

definition load_ttsSettings :: "world \<Rightarrow> error + bool \<times> world" where
  "load_ttsSettings w =
     (let savedSettings = ttsSettings_entry (localStorage w) in
      if truthy savedSettings then
        (case JSON_parse savedSettings of
           Throws e \<Rightarrow> Inl e
         | WellTyped s \<Rightarrow> Inr (True, setTTSSettings (\<lambda>_. s) w)
         | IllTyped \<Rightarrow> Inr (False, w))
      else Inr (True, w))"

text \<open>
  Lines 59 to 65. The first argument is the \<open>ttsSettings\<close> the closure captured: the test
  \<open>!ttsSettings.voice\<close> reads the captured value, the update reads the current one.
\<close>

definition loadVoices :: "TTSSettings \<Rightarrow> world \<Rightarrow> world" where
  "loadVoices captured w =
     (let vs = voices (speechSynthesis w);
          w1 = w\<lparr>availableVoices := vs\<rparr>
      in if length vs > 0 \<and> voice captured = []
         then setTTSSettings (\<lambda>prev. prev\<lparr>voice := name (vs ! 0)\<rparr>) w1
         else w1)"

text \<open>Lines 72 to 74, for the \<open>ttsSettings\<close> of the render the effect belongs to.\<close>

definition persist_ttsSettings :: "TTSSettings \<Rightarrow> world \<Rightarrow> world" where
  "persist_ttsSettings s w =
     w\<lparr>localStorage := (localStorage w)\<lparr>ttsSettings_entry := Some (JSON_stringify s)\<rparr>\<rparr>"

text \<open>A render after a handler: the persisting effect runs if its dependency changed.\<close>

definition rerender :: "world \<Rightarrow> world" where
  "rerender w =
     (if ttsSettings_changed w
      then (persist_ttsSettings (ttsSettings w) w)\<lparr>ttsSettings_changed := False\<rparr>
      else w)"

text \<open>
  Mounting: the first render has the initial state; its two effects run in order, the first
  with the closure of that render (lines 47 to 69), the second persisting the settings of
  that render (lines 72 to 74); then the queued state updates are rendered. An exception in
  the first effect is not caught by the component. When no exception is thrown but a setter
  was given a value that is not of the declared type, the result says so.
\<close>

definition mount :: "Storage \<Rightarrow> SpeechSynthesis \<Rightarrow> error + world" where
  "mount ls eng =
     (let w0 = initial ls eng; captured = ttsSettings w0 in
      case load_savedRecipes w0 of
        Inl e \<Rightarrow> Inl e
      | Inr (typed1, w1) \<Rightarrow>
          (case load_ttsSettings w1 of
             Inl e \<Rightarrow> Inl e
           | Inr (typed2, w2) \<Rightarrow>
               if typed1 \<and> typed2 then
                 (let w3 = loadVoices captured w2;
                      w4 = w3\<lparr>speechSynthesis :=
                                (speechSynthesis w3)\<lparr>onvoiceschanged := Some captured\<rparr>\<rparr>;
                      w5 = persist_ttsSettings captured w4
                  in Inr (rerender w5))
               else Inl IllTypedValue))"

subsubsection \<open>Recipe library handlers\<close>

text \<open>
  The notifications of \<open>saveRecipe\<close>; the destructive one is what the spec calls
  \<open>ValidationError\<close>.
\<close>

definition saveRecipe_error :: toast where
  "saveRecipe_error =
     Toast (lit ''Error'') (lit ''Please enter both a title and recipe content'') Destructive"

definition saveRecipe_success :: toast where
  "saveRecipe_success = Toast (lit ''Success'') (lit ''Recipe saved successfully!'') Default"

text \<open>
  Lines 76 to 101. \<open>now\<close> is the value \<open>Date.now()\<close> returns and \<open>stamp\<close> the string
  \<open>new Date().toISOString()\<close> returns during the call. The handler returns nothing.
\<close>

definition saveRecipe :: "int \<Rightarrow> jsstring \<Rightarrow> world \<Rightarrow> world" where
  "saveRecipe now stamp w =
     (if trim (recipeTitle w) = [] \<or> trim (recipe w) = [] then show_toast saveRecipe_error w
      else
        let newRecipe = \<lparr>id' = Number_toString now, title = recipeTitle w,
                         content = recipe w, createdAt = stamp\<rparr>;
            updatedRecipes = savedRecipes w @ [newRecipe];
            w1 = w\<lparr>savedRecipes := updatedRecipes\<rparr>;
            w2 = w1\<lparr>localStorage :=
                      (localStorage w1)\<lparr>savedRecipes_entry :=
                                          Some (JSON_stringify updatedRecipes)\<rparr>\<rparr>
        in show_toast saveRecipe_success w2)"

definition loadRecipe :: "Recipe \<Rightarrow> world \<Rightarrow> world" where
  "loadRecipe selectedRecipe w =
     show_toast
       (Toast (lit ''Recipe Loaded'')
          (lit ''Loaded \"'' @ title selectedRecipe @ lit ''\"'') Default)
       (w\<lparr>recipeTitle := title selectedRecipe, recipe := content selectedRecipe\<rparr>)"

definition deleteRecipe :: "jsstring \<Rightarrow> world \<Rightarrow> world" where
  "deleteRecipe i w =
     (let updatedRecipes = filter (\<lambda>r. id' r \<noteq> i) (savedRecipes w);
          w1 = w\<lparr>savedRecipes := updatedRecipes\<rparr>;
          w2 = w1\<lparr>localStorage :=
                    (localStorage w1)\<lparr>savedRecipes_entry :=
                                        Some (JSON_stringify updatedRecipes)\<rparr>\<rparr>
      in show_toast (Toast (lit ''Recipe Deleted'') (lit ''Recipe has been removed'') Default) w2)"

subsubsection \<open>Playback handlers\<close>

text \<open>
  The destructive notifications of the playback handlers, which the spec calls
  \<open>EmptyContent\<close> and \<open>SpeechError\<close>.
\<close>

definition startSpeech_error :: toast where
  "startSpeech_error =
     Toast (lit ''No Content'') (lit ''Please enter a recipe to read aloud'') Destructive"

definition speech_error :: toast where
  "speech_error =
     Toast (lit ''Speech Error'') (lit ''An error occurred during speech synthesis'')
       Destructive"

text \<open>Lines 142 to 153: the utterance built from the editor text and the settings.\<close>

definition new_utterance :: "world \<Rightarrow> SpeechSynthesisUtterance" where
  "new_utterance w =
     \<lparr>text' = recipe w, rate' = rate (ttsSettings w), pitch' = pitch (ttsSettings w),
      volume' = volume (ttsSettings w),
      voice' = find (\<lambda>v. name v = voice (ttsSettings w)) (availableVoices w)\<rparr>"

text \<open>Lines 122 to 179.\<close>

definition startSpeech :: "world \<Rightarrow> world" where
  "startSpeech w =
     (if trim (recipe w) = [] then show_toast startSpeech_error w
      else if isPaused w \<and> currentUtterance w \<noteq> None then
        w\<lparr>speechSynthesis := resume (speechSynthesis w), isPaused := False, isPlaying := True\<rparr>
      else
        let utterance = new_utterance w in
        w\<lparr>currentUtterance := Some utterance,
          speechSynthesis := speak utterance (cancel (speechSynthesis w))\<rparr>)"

text \<open>Lines 155 to 175: the callbacks every utterance is given.\<close>

definition onstart :: "world \<Rightarrow> world" where
  "onstart w = w\<lparr>isPlaying := True, isPaused := False\<rparr>"

definition onend :: "world \<Rightarrow> world" where
  "onend w = w\<lparr>isPlaying := False, isPaused := False, currentUtterance := None\<rparr>"

definition onerror :: "world \<Rightarrow> world" where
  "onerror w =
     show_toast speech_error (w\<lparr>isPlaying := False, isPaused := False, currentUtterance := None\<rparr>)"

text \<open>Lines 181 to 194.\<close>

definition pauseSpeech :: "world \<Rightarrow> world" where
  "pauseSpeech w =
     (if isPlaying w
      then w\<lparr>speechSynthesis := pause (speechSynthesis w), isPlaying := False, isPaused := True\<rparr>
      else w)"

definition stopSpeech :: "world \<Rightarrow> world" where
  "stopSpeech w =
     w\<lparr>speechSynthesis := cancel (speechSynthesis w), isPlaying := False, isPaused := False,
       currentUtterance := None\<rparr>"

text \<open>
  The three spec states as the flag pair encodes them; the pair with both flags set encodes
  none.
\<close>

datatype playback = Idle | Playing | Paused

definition playback_state :: "world \<Rightarrow> playback option" where
  "playback_state w =
     (if isPlaying w then (if isPaused w then None else Some Playing)
      else if isPaused w then Some Paused else Some Idle)"

subsubsection \<open>Events\<close>

text \<open>
  What can happen to a mounted component: the user's input (the \<open>onChange\<close>, \<open>onClick\<close>
  and \<open>onValueChange\<close> handlers of lines 223 to 403), a change of the Voice Catalog, and the
  engine's utterance events. The engine removes the first utterance of its queue when it
  reports its end or its error; the error event of an utterance that \<open>cancel\<close> removed
  leaves the queue as it is. The events may arrive in any order and in any state.
\<close>

datatype event =
    ChangeTitle jsstring
  | ChangeRecipe jsstring
  | ClickSave int jsstring
  | ClickLoad Recipe
  | ClickDelete jsstring
  | ClickStart
  | ClickPause
  | ClickStop
  | ClickSettings
  | SlideRate real
  | SlidePitch real
  | SlideVolume real
  | SelectVoice jsstring
  | VoicesChanged "SpeechSynthesisVoice list"
  | UtteranceStart
  | UtteranceEnd
  | UtteranceError
  | CancelledUtteranceError

definition pop_queue :: "world \<Rightarrow> world" where
  "pop_queue w =
     w\<lparr>speechSynthesis := (speechSynthesis w)\<lparr>queue := drop 1 (queue (speechSynthesis w))\<rparr>\<rparr>"

definition voiceschanged :: "SpeechSynthesisVoice list \<Rightarrow> world \<Rightarrow> world" where
  "voiceschanged vs w =
     (let w1 = w\<lparr>speechSynthesis := (speechSynthesis w)\<lparr>voices := vs\<rparr>\<rparr> in
      case onvoiceschanged (speechSynthesis w1) of
        None \<Rightarrow> w1
      | Some captured \<Rightarrow> loadVoices captured w1)"

fun handle :: "event \<Rightarrow> world \<Rightarrow> world" where
  "handle (ChangeTitle s) w = w\<lparr>recipeTitle := s\<rparr>"
| "handle (ChangeRecipe s) w = w\<lparr>recipe := s\<rparr>"
| "handle (ClickSave now stamp) w = saveRecipe now stamp w"
| "handle (ClickLoad r) w = loadRecipe r w"
| "handle (ClickDelete i) w = deleteRecipe i w"
| "handle ClickStart w = startSpeech w"
| "handle ClickPause w = pauseSpeech w"
| "handle ClickStop w = stopSpeech w"
| "handle ClickSettings w = w\<lparr>showSettings := \<not> showSettings w\<rparr>"
| "handle (SlideRate v) w = setTTSSettings (\<lambda>prev. prev\<lparr>rate := v\<rparr>) w"
| "handle (SlidePitch v) w = setTTSSettings (\<lambda>prev. prev\<lparr>pitch := v\<rparr>) w"
| "handle (SlideVolume v) w = setTTSSettings (\<lambda>prev. prev\<lparr>volume := v\<rparr>) w"
| "handle (SelectVoice v) w = setTTSSettings (\<lambda>prev. prev\<lparr>voice := v\<rparr>) w"
| "handle (VoicesChanged vs) w = voiceschanged vs w"
| "handle UtteranceStart w = onstart w"
| "handle UtteranceEnd w = onend (pop_queue w)"
| "handle UtteranceError w = onerror (pop_queue w)"
| "handle CancelledUtteranceError w = onerror w"

definition step :: "event \<Rightarrow> world \<Rightarrow> world" where
  "step e w = rerender (handle e w)"

definition run :: "event list \<Rightarrow> world \<Rightarrow> world" where
  "run es w = foldl (\<lambda>w e. step e w) w es"

subsection \<open>Example inputs\<close>

text \<open>
  Stores: one with no entry, one whose recipe entry does not parse, one whose recipe entry
  parses to something that is not a list of recipes, one holding a recipe and a preferences
  record. An engine at rest with a given Voice Catalog, two voices, the
  component mounted on the empty store, and a component paused in the middle of a reading.
\<close>

definition empty_storage :: Storage where
  "empty_storage = \<lparr>savedRecipes_entry = None, ttsSettings_entry = None\<rparr>"


definition ill_typed_storage :: Storage where
  "ill_typed_storage = \<lparr>savedRecipes_entry = Some IllTypedText, ttsSettings_entry = None\<rparr>"

definition example_storage :: Storage where
  "example_storage =
     \<lparr>savedRecipes_entry =
        Some (JsonText [\<lparr>id' = lit ''1700000000000'', title = lit ''Soup'',
                         content = lit ''Boil water'',
                         createdAt = lit ''2023-11-14T22:13:20.000Z''\<rparr>]),
      ttsSettings_entry =
        Some (JsonText \<lparr>rate = 1.5, pitch = 1, volume = 0.8, voice = lit ''Alex''\<rparr>)\<rparr>"

definition idle_engine :: "SpeechSynthesisVoice list \<Rightarrow> SpeechSynthesis" where
  "idle_engine vs = \<lparr>queue = [], paused = False, voices = vs, onvoiceschanged = None\<rparr>"

definition voice_A :: SpeechSynthesisVoice where
  "voice_A = \<lparr>name = lit ''Alex'', lang = lit ''en-US''\<rparr>"

definition voice_B :: SpeechSynthesisVoice where
  "voice_B = \<lparr>name = lit ''Samantha'', lang = lit ''en-US''\<rparr>"

definition mounted :: world where
  "mounted = projr (mount empty_storage (idle_engine []))"

definition paused_world :: world where
  "paused_world =
     run [ChangeRecipe (lit ''Mix''), ClickStart, UtteranceStart, ClickPause] mounted"

section \<open>Properties\<close>

subsection \<open>Auxiliary facts\<close>

lemma dropWhile_all_iff: "(\<forall>x\<in>set (dropWhile P xs). P x) \<longleftrightarrow> (\<forall>x\<in>set xs. P x)"
proof
  assume a: "\<forall>x\<in>set (dropWhile P xs). P x"
  have "dropWhile P xs = []"
  proof (rule ccontr)
    assume ne: "dropWhile P xs \<noteq> []"
    then have "\<not> P (hd (dropWhile P xs))" by (rule hd_dropWhile)
    moreover from ne have "hd (dropWhile P xs) \<in> set (dropWhile P xs)" by simp
    ultimately show False using a by blast
  qed
  then show "\<forall>x\<in>set xs. P x" by (simp add: dropWhile_eq_Nil_conv)
next
  assume "\<forall>x\<in>set xs. P x"
  then show "\<forall>x\<in>set (dropWhile P xs). P x" by (auto dest: set_dropWhileD)
qed

text \<open>A string trims to the empty string exactly when it consists of white space only.\<close>

lemma trim_Nil_iff: "trim s = [] \<longleftrightarrow> (\<forall>c\<in>set s. isWhiteSpace c)"
  by (simp add: trim_def dropWhile_eq_Nil_conv dropWhile_all_iff)

text \<open>
  Different clock readings have different numerals: the digits determine the number and a
  numeral of a number that is not negative has no minus sign.
\<close>

lemma digit_inj:
  assumes "m < 10" and "n < 10" and "(0x30 + of_nat m :: 16 word) = 0x30 + of_nat n"
  shows "m = n"
proof -
  from assms(3) have "(of_nat m :: 16 word) = of_nat n" by simp
  then have "unat (of_nat m :: 16 word) = unat (of_nat n :: 16 word)" by simp
  with assms(1,2) show ?thesis by (simp add: unat_of_nat)
qed

lemma digit_not_minus: "d < 10 \<Longrightarrow> (0x30 + of_nat d :: 16 word) \<noteq> 0x2D"
proof
  assume d: "d < 10" and e: "(0x30 + of_nat d :: 16 word) = 0x2D"
  from d have "d \<in> {0, 1, 2, 3, 4, 5, 6, 7, 8, 9}" by auto
  with e show False by auto
qed

lemma decimal_nonempty: "decimal n \<noteq> []"
  by (subst decimal.simps) simp

lemma minus_notin_decimal: "0x2D \<notin> set (decimal n)"
proof (induction n rule: decimal.induct)
  case (1 n)
  show ?case
  proof (cases "n < 10")
    case True
    then show ?thesis using digit_not_minus [of n] by (subst decimal.simps) auto
  next
    case False
    then show ?thesis using 1 digit_not_minus [of "n mod 10"]
      by (subst decimal.simps) auto
  qed
qed

lemma decimal_inj: "decimal m = decimal n \<Longrightarrow> m = n"
proof (induction m arbitrary: n rule: decimal.induct)
  case (1 m)
  show ?case
  proof (cases "m < 10")
    case m: True
    show ?thesis
    proof (cases "n < 10")
      case True
      with m "1.prems" show ?thesis
        by (simp add: decimal.simps [of m] decimal.simps [of n] digit_inj)
    next
      case False
      with m "1.prems" decimal_nonempty [of "n div 10"] show ?thesis
        by (simp add: decimal.simps [of m] decimal.simps [of n])
    qed
  next
    case m: False
    show ?thesis
    proof (cases "n < 10")
      case True
      with m "1.prems" decimal_nonempty [of "m div 10"] show ?thesis
        by (simp add: decimal.simps [of m] decimal.simps [of n])
    next
      case False
      with m "1.prems" have e: "decimal (m div 10) = decimal (n div 10)"
        and d: "(0x30 + of_nat (m mod 10) :: 16 word) = 0x30 + of_nat (n mod 10)"
        by (simp_all add: decimal.simps [of m] decimal.simps [of n])
      from "1.IH" [OF m e] have q: "m div 10 = n div 10" .
      from d have r: "m mod 10 = n mod 10" by (intro digit_inj) simp_all
      from q r show ?thesis by (metis div_mult_mod_eq)
    qed
  qed
qed

lemma Number_toString_inj: "Number_toString a = Number_toString b \<Longrightarrow> a = b"
proof -
  assume e: "Number_toString a = Number_toString b"
  have n: "\<And>k xs. decimal k \<noteq> 0x2D # xs"
  proof
    fix k xs assume "decimal k = 0x2D # xs"
    then have "0x2D \<in> set (decimal k)" by simp
    then show False by (simp add: minus_notin_decimal)
  qed
  show ?thesis
  proof (cases "a < 0")
    case a: True
    show ?thesis
    proof (cases "b < 0")
      case True
      with a e have "nat (- a) = nat (- b)"
        by (auto simp: Number_toString_def dest: decimal_inj)
      with a True show ?thesis by simp
    next
      case False
      with a e n [of "nat b" "decimal (nat (- a))"] show ?thesis
        by (simp add: Number_toString_def)
    qed
  next
    case a: False
    show ?thesis
    proof (cases "b < 0")
      case True
      with a e n [of "nat a" "decimal (nat (- b))"] show ?thesis
        by (simp add: Number_toString_def)
    next
      case False
      with a e have "nat a = nat b" by (auto simp: Number_toString_def dest: decimal_inj)
      with a False show ?thesis by simp
    qed
  qed
qed

lemmas handler_defs =
  saveRecipe_def loadRecipe_def deleteRecipe_def startSpeech_def pauseSpeech_def stopSpeech_def
  onstart_def onend_def onerror_def voiceschanged_def loadVoices_def setTTSSettings_def
  show_toast_def pop_queue_def

lemmas eval_defs =
  mount_def load_savedRecipes_def load_ttsSettings_def persist_ttsSettings_def rerender_def
  initial_def default_ttsSettings_def empty_storage_def idle_engine_def JSON_stringify_def
  run_def step_def handler_defs new_utterance_def speak_def cancel_def pause_def resume_def
  trim_def isWhiteSpace_def lit_def Let_def playback_state_def

lemmas ex_defs =
  eval_defs mounted_def paused_world_def example_storage_def ill_typed_storage_def
  voice_A_def voice_B_def

lemma rerender_keeps [simp]:
  "isPlaying (rerender w) = isPlaying w" "isPaused (rerender w) = isPaused w"
  "speechSynthesis (rerender w) = speechSynthesis w" "recipe (rerender w) = recipe w"
  by (simp_all add: rerender_def persist_ttsSettings_def)

text \<open>Each handler keeps the two flags from being set together, and the queue short.\<close>

lemma handle_flags:
  "\<not> (isPlaying w \<and> isPaused w) \<Longrightarrow> \<not> (isPlaying (handle e w) \<and> isPaused (handle e w))"
  by (cases e) (auto simp: handler_defs Let_def split: option.splits)

lemma handle_queue:
  "length (queue (speechSynthesis w)) \<le> 1 \<Longrightarrow>
   length (queue (speechSynthesis (handle e w))) \<le> 1"
  by (cases e)
    (auto simp: handler_defs Let_def speak_def cancel_def resume_def pause_def
      split: option.splits)

lemma run_snoc: "run (es @ [e]) w = step e (run es w)"
  by (simp add: run_def)

lemma run_flags:
  "\<not> (isPlaying w \<and> isPaused w) \<Longrightarrow> \<not> (isPlaying (run es w) \<and> isPaused (run es w))"
proof (induction es rule: rev_induct)
  case Nil
  then show ?case by (simp add: run_def)
next
  case (snoc e es)
  then show ?case using handle_flags [of "run es w" e] by (simp add: run_snoc step_def)
qed

lemma run_queue:
  "length (queue (speechSynthesis w)) \<le> 1 \<Longrightarrow>
   length (queue (speechSynthesis (run es w))) \<le> 1"
proof (induction es rule: rev_induct)
  case Nil
  then show ?case by (simp add: run_def)
next
  case (snoc e es)
  then show ?case using handle_queue [of "run es w" e] by (simp add: run_snoc step_def)
qed

text \<open>A mounted component is idle, and mounting does not touch the engine's queue.\<close>

lemma mount_Inr:
  assumes "mount ls eng = Inr w"
  shows "\<not> isPlaying w" "\<not> isPaused w" "queue (speechSynthesis w) = queue eng"
  using assms
  by (auto simp: mount_def load_savedRecipes_def load_ttsSettings_def loadVoices_def
      setTTSSettings_def persist_ttsSettings_def rerender_def initial_def Let_def
      split: sum.splits if_splits parsed.splits prod.splits)




text \<open>
  The handler of \<open>onvoiceschanged\<close> is the closure of the first render for the whole life
  of the component, so its test reads the empty voice of the initial settings: every refresh
  with a non-empty catalog sets the voice to the first entry.
\<close>

lemma handle_onvoiceschanged:
  "onvoiceschanged (speechSynthesis (handle e w)) = onvoiceschanged (speechSynthesis w)"
  by (cases e)
    (auto simp: handler_defs speak_def cancel_def pause_def resume_def Let_def
      split: option.splits)

lemma run_onvoiceschanged:
  "onvoiceschanged (speechSynthesis (run es w)) = onvoiceschanged (speechSynthesis w)"
  by (induction es rule: rev_induct)
    (simp_all add: run_def step_def handle_onvoiceschanged)

lemma mount_onvoiceschanged:
  "mount ls eng = Inr w \<Longrightarrow> onvoiceschanged (speechSynthesis w) = Some default_ttsSettings"
  by (auto simp: mount_def load_savedRecipes_def load_ttsSettings_def loadVoices_def
      setTTSSettings_def persist_ttsSettings_def rerender_def initial_def Let_def
      split: sum.splits if_splits parsed.splits prod.splits)

lemma refresh_reseeds:
  assumes "mount ls eng = Inr w0" and "vs \<noteq> []"
  shows "voice (ttsSettings (step (VoicesChanged vs) (run es w0))) = name (vs ! 0)"
proof -
  from assms(1) have "onvoiceschanged (speechSynthesis (run es w0)) = Some default_ttsSettings"
    by (simp add: run_onvoiceschanged mount_onvoiceschanged)
  with assms(2) show ?thesis
    by (simp add: step_def voiceschanged_def loadVoices_def setTTSSettings_def rerender_def
        persist_ttsSettings_def default_ttsSettings_def Let_def)
qed

text \<open>
  Every setter is followed by the persisting effect, which writes the whole record; a
  component mounted on such a store reads the three numbers back, and the voice when the
  Voice Catalog is empty at that moment.
\<close>

lemma setter_write_through:
  "ttsSettings_entry (localStorage (step (SlideRate v) w)) =
     Some (JSON_stringify ((ttsSettings w)\<lparr>rate := v\<rparr>))"
  "ttsSettings_entry (localStorage (step (SlidePitch v) w)) =
     Some (JSON_stringify ((ttsSettings w)\<lparr>pitch := v\<rparr>))"
  "ttsSettings_entry (localStorage (step (SlideVolume v) w)) =
     Some (JSON_stringify ((ttsSettings w)\<lparr>volume := v\<rparr>))"
  "ttsSettings_entry (localStorage (step (SelectVoice n) w)) =
     Some (JSON_stringify ((ttsSettings w)\<lparr>voice := n\<rparr>))"
  by (simp_all add: step_def rerender_def setTTSSettings_def persist_ttsSettings_def)

lemma reload_reads_back:
  assumes "ttsSettings_entry ls = Some (JSON_stringify s)"
    and "savedRecipes_entry ls \<notin> {Some CorruptText, Some IllTypedText}"
  shows "\<exists>w. mount ls eng = Inr w \<and>
           rate (ttsSettings w) = rate s \<and> pitch (ttsSettings w) = pitch s \<and>
           volume (ttsSettings w) = volume s \<and>
           voice (ttsSettings w) = (if voices eng = [] then voice s else name (voices eng ! 0))"
proof (cases "savedRecipes_entry ls")
  case None
  with assms show ?thesis by (simp add: eval_defs)
next
  case (Some a)
  with assms show ?thesis by (cases a) (simp_all add: eval_defs)
qed

subsection \<open>Claims\<close>

text \<open>
  C1. At most one utterance is active at any time. In every state a mounted component can
  reach from an engine at rest, whatever the events and their order, the engine's queue
  holds at most one utterance; and when playback is started in a state that is Playing with
  a non-blank text, the prior utterance has been cancelled before the new one is handed to
  the engine, so that the queue holds the new utterance alone and no other utterance's
  start event can fire.
\<close>

theorem C1_single_active_utterance:
  assumes "queue eng = []" and "mount ls eng = Inr w0"
  shows "length (queue (speechSynthesis (run es w0))) \<le> 1 \<and>
         (isPlaying (run es w0) \<and> trim (recipe (run es w0)) \<noteq> [] \<longrightarrow>
            queue (speechSynthesis (startSpeech (run es w0))) = [new_utterance (run es w0)])"
proof -
  from assms have q0: "length (queue (speechSynthesis w0)) \<le> 1"
    and f0: "\<not> (isPlaying w0 \<and> isPaused w0)"
    by (simp_all add: mount_Inr)
  have "length (queue (speechSynthesis (run es w0))) \<le> 1"
    using q0 by (rule run_queue)
  moreover have "\<not> (isPlaying (run es w0) \<and> isPaused (run es w0))"
    using f0 by (rule run_flags)
  ultimately show ?thesis
    by (auto simp: startSpeech_def speak_def cancel_def Let_def)
qed

theorem C1_witness:
  "queue (idle_engine []) = [] \<and>
   mount empty_storage (idle_engine []) = Inr mounted \<and>
   isPlaying (run [ChangeRecipe (lit ''Mix''), ClickStart, UtteranceStart] mounted) \<and>
   recipe (run [ChangeRecipe (lit ''Mix''), ClickStart, UtteranceStart] mounted) = lit ''Mix'' \<and>
   queue (speechSynthesis (startSpeech
      (run [ChangeRecipe (lit ''Mix''), ClickStart, UtteranceStart] mounted))) =
     [\<lparr>text' = lit ''Mix'', rate' = 1, pitch' = 1, volume' = 1, voice' = None\<rparr>]"
proof -
  have h1: "queue (idle_engine []) = []" by (simp add: idle_engine_def)
  have h2: "mount empty_storage (idle_engine []) = Inr mounted"
    by (simp add: ex_defs)
  show ?thesis
    using h2 C1_single_active_utterance [OF h1 h2,
        of "[ChangeRecipe (lit ''Mix''), ClickStart, UtteranceStart]"]
    by (simp add: ex_defs)
qed




text \<open>
  C3, as the code has it. For every title and content that are both non-blank after
  trimming, whatever the clock reads, \<open>saveRecipe\<close> builds a Recipe whose id is the
  decimal numeral of the clock reading and whose timestamp is the string the platform's
  \<open>toISOString\<close> returns, appends it to the collection (the earlier entries keep their
  order, the new one is last), persists the full collection, and shows the success
  notification; the handler returns nothing. The collection afterwards is the earlier one
  followed by exactly that entry. The ids of the collection are pairwise distinct afterwards
  exactly when they were before and no earlier entry carries the numeral of this clock
  reading; an entry whose id is the numeral of another clock reading never collides with
  the new one.
\<close>

theorem C3_save_appends:
  assumes "trim (recipeTitle w) \<noteq> []" and "trim (recipe w) \<noteq> []"
  shows "savedRecipes (saveRecipe now stamp w) =
           savedRecipes w @ [\<lparr>id' = Number_toString now, title = recipeTitle w,
                               content = recipe w, createdAt = stamp\<rparr>] \<and>
         savedRecipes_entry (localStorage (saveRecipe now stamp w)) =
           Some (JSON_stringify (savedRecipes (saveRecipe now stamp w))) \<and>
         JSON_parse (savedRecipes_entry (localStorage (saveRecipe now stamp w))) =
           WellTyped (savedRecipes (saveRecipe now stamp w)) \<and>
         ttsSettings_entry (localStorage (saveRecipe now stamp w)) =
           ttsSettings_entry (localStorage w) \<and>
         toasts (saveRecipe now stamp w) = toasts w @ [saveRecipe_success] \<and>
         (distinct (map id' (savedRecipes (saveRecipe now stamp w))) \<longleftrightarrow>
            distinct (map id' (savedRecipes w)) \<and>
            Number_toString now \<notin> id' ` set (savedRecipes w)) \<and>
         (\<forall>r\<in>set (savedRecipes w). \<forall>t. t \<noteq> now \<and> id' r = Number_toString t \<longrightarrow>
            id' r \<noteq> id' (last (savedRecipes (saveRecipe now stamp w))))"
proof -
  have inj: "\<And>t. t \<noteq> now \<Longrightarrow> Number_toString t \<noteq> Number_toString now"
    using Number_toString_inj by blast
  from assms show ?thesis
    by (auto simp: saveRecipe_def show_toast_def JSON_stringify_def Let_def dest: inj)
qed

theorem C3_witness:
  "savedRecipes
     (saveRecipe 1700000000001 (lit ''2023-11-14T22:13:20.001Z'')
        (run [ChangeTitle (lit ''Stew''), ChangeRecipe (lit ''Simmer'')]
           (projr (mount example_storage (idle_engine []))))) =
     [\<lparr>id' = lit ''1700000000000'', title = lit ''Soup'',
       content = lit ''Boil water'', createdAt = lit ''2023-11-14T22:13:20.000Z''\<rparr>,
      \<lparr>id' = lit ''1700000000001'', title = lit ''Stew'',
       content = lit ''Simmer'', createdAt = lit ''2023-11-14T22:13:20.001Z''\<rparr>] \<and>
   distinct (map id' (savedRecipes
     (saveRecipe 1700000000001 (lit ''2023-11-14T22:13:20.001Z'')
        (run [ChangeTitle (lit ''Stew''), ChangeRecipe (lit ''Simmer'')]
           (projr (mount example_storage (idle_engine []))))))) \<and>
   Number_toString 1700000000000 = lit ''1700000000000'' \<and>
   Number_toString 1700000000001 = lit ''1700000000001''"
proof -
  let ?w = "run [ChangeTitle (lit ''Stew''), ChangeRecipe (lit ''Simmer'')]
              (projr (mount example_storage (idle_engine [])))"
  have d: "Number_toString 1700000000001 = lit ''1700000000001''"
    by (simp add: Number_toString_def decimal.simps lit_def)
  have h1: "trim (recipeTitle ?w) \<noteq> []" by (simp add: ex_defs)
  have h2: "trim (recipe ?w) \<noteq> []" by (simp add: ex_defs)
  have s: "savedRecipes ?w =
     [\<lparr>id' = lit ''1700000000000'', title = lit ''Soup'',
       content = lit ''Boil water'', createdAt = lit ''2023-11-14T22:13:20.000Z''\<rparr>]"
    by (simp add: ex_defs)
  have t: "recipeTitle ?w = lit ''Stew''" "recipe ?w = lit ''Simmer''"
    by (simp_all add: ex_defs)
  have d0: "Number_toString 1700000000000 = lit ''1700000000000''"
    by (simp add: Number_toString_def decimal.simps lit_def)
  have n: "lit ''1700000000001'' \<noteq> lit ''1700000000000''" by (simp add: lit_def)
  show ?thesis
    using C3_save_appends [OF h1 h2, of 1700000000001 "lit ''2023-11-14T22:13:20.001Z''"] n
    unfolding d d0 s t by simp
qed

text \<open>
  C3 as stated fails: two saves at the same clock reading give two entries with the same
  id, so the fresh id is not unique across the library.
\<close>

theorem C3_counterexample:
  "\<not> distinct (map id' (savedRecipes
       (run [ChangeTitle (lit ''Soup''), ChangeRecipe (lit ''Boil water''),
             ClickSave 1700000000000 (lit ''2023-11-14T22:13:20.000Z''),
             ClickSave 1700000000000 (lit ''2023-11-14T22:13:20.000Z'')] mounted)))"
  by (simp add: ex_defs)

text \<open>
  C4. For every title and content of which at least one is blank after trimming,
  \<open>saveRecipe\<close> fails with the validation error notification and leaves everything else
  as it was: the collection in memory and the persisted store are unchanged.
\<close>

theorem C4_save_blank_rejected:
  assumes "trim (recipeTitle w) = [] \<or> trim (recipe w) = []"
  shows "saveRecipe now stamp w = w\<lparr>toasts := toasts w @ [saveRecipe_error]\<rparr> \<and>
         savedRecipes (saveRecipe now stamp w) = savedRecipes w \<and>
         localStorage (saveRecipe now stamp w) = localStorage w"
  using assms by (simp add: saveRecipe_def show_toast_def)

theorem C4_witness:
  "recipeTitle (run [ChangeTitle (lit ''  ''), ChangeRecipe (lit ''Boil water'')] mounted) =
     lit ''  '' \<and>
   savedRecipes (saveRecipe 1700000000000 (lit ''2023-11-14T22:13:20.000Z'')
      (run [ChangeTitle (lit ''  ''), ChangeRecipe (lit ''Boil water'')] mounted)) = [] \<and>
   savedRecipes_entry (localStorage
     (saveRecipe 1700000000000 (lit ''2023-11-14T22:13:20.000Z'')
        (run [ChangeTitle (lit ''  ''), ChangeRecipe (lit ''Boil water'')] mounted))) = None \<and>
   toasts (saveRecipe 1700000000000 (lit ''2023-11-14T22:13:20.000Z'')
      (run [ChangeTitle (lit ''  ''), ChangeRecipe (lit ''Boil water'')] mounted)) =
     [saveRecipe_error]"
proof -
  let ?w = "run [ChangeTitle (lit ''  ''), ChangeRecipe (lit ''Boil water'')] mounted"
  have h: "trim (recipeTitle ?w) = [] \<or> trim (recipe ?w) = []" by (simp add: ex_defs)
  show ?thesis
    using C4_save_blank_rejected [OF h, of 1700000000000 "lit ''2023-11-14T22:13:20.000Z''"]
    by (simp add: ex_defs)
qed

text \<open>
  C5. For every editor text that is empty or consists of white space only, \<open>startSpeech\<close>
  fails with the empty-content notification and changes nothing else: the playback state is
  what it was (Idle stays Idle), no utterance is constructed and the engine is not called.
\<close>

theorem C5_start_blank_rejected:
  assumes "\<forall>c\<in>set (recipe w). isWhiteSpace c"
  shows "startSpeech w = w\<lparr>toasts := toasts w @ [startSpeech_error]\<rparr> \<and>
         playback_state (startSpeech w) = playback_state w \<and>
         currentUtterance (startSpeech w) = currentUtterance w \<and>
         speechSynthesis (startSpeech w) = speechSynthesis w"
proof -
  from assms have "trim (recipe w) = []" by (simp add: trim_Nil_iff)
  then show ?thesis by (simp add: startSpeech_def show_toast_def playback_state_def)
qed

theorem C5_witness:
  "recipe (run [ChangeRecipe (lit ''   '')] mounted) = lit ''   '' \<and>
   playback_state (startSpeech (run [ChangeRecipe (lit ''   '')] mounted)) = Some Idle \<and>
   currentUtterance (startSpeech (run [ChangeRecipe (lit ''   '')] mounted)) = None \<and>
   queue (speechSynthesis (startSpeech (run [ChangeRecipe (lit ''   '')] mounted))) = [] \<and>
   toasts (startSpeech (run [ChangeRecipe (lit ''   '')] mounted)) = [startSpeech_error]"
proof -
  let ?w = "run [ChangeRecipe (lit ''   '')] mounted"
  have h: "\<forall>c\<in>set (recipe ?w). isWhiteSpace c" by (simp add: ex_defs)
  show ?thesis
    using C5_start_blank_rejected [OF h] by (simp add: ex_defs)
qed

text \<open>
  C6, as the code has it. Whenever the state is Paused, a paused utterance exists and the
  editor text is not blank, \<open>startSpeech\<close> resumes that utterance rather than constructing
  a new one and the state becomes Playing: the engine's queue and the utterance reference
  are what they were, whatever the preferences have become in the meantime.
\<close>

theorem C6_resume:
  assumes "isPaused w" and "currentUtterance w = Some u" and "trim (recipe w) \<noteq> []"
  shows "startSpeech w =
           w\<lparr>speechSynthesis := resume (speechSynthesis w), isPaused := False,
             isPlaying := True\<rparr> \<and>
         playback_state (startSpeech w) = Some Playing \<and>
         currentUtterance (startSpeech w) = Some u \<and>
         queue (speechSynthesis (startSpeech w)) = queue (speechSynthesis w) \<and>
         \<not> paused (speechSynthesis (startSpeech w)) \<and>
         currentUtterance (startSpeech (w\<lparr>ttsSettings := s\<rparr>)) = Some u \<and>
         queue (speechSynthesis (startSpeech (w\<lparr>ttsSettings := s\<rparr>))) =
           queue (speechSynthesis w)"
  using assms by (simp add: startSpeech_def resume_def playback_state_def)

theorem C6_witness:
  "isPaused (run [SlideRate 2] paused_world) \<and>
   rate (ttsSettings (run [SlideRate 2] paused_world)) = 2 \<and>
   playback_state (startSpeech (run [SlideRate 2] paused_world)) = Some Playing \<and>
   currentUtterance (startSpeech (run [SlideRate 2] paused_world)) =
     Some \<lparr>text' = lit ''Mix'', rate' = 1, pitch' = 1, volume' = 1, voice' = None\<rparr> \<and>
   queue (speechSynthesis (startSpeech (run [SlideRate 2] paused_world))) =
     [\<lparr>text' = lit ''Mix'', rate' = 1, pitch' = 1, volume' = 1, voice' = None\<rparr>]"
proof -
  let ?w = "run [SlideRate 2] paused_world"
  let ?u = "\<lparr>text' = lit ''Mix'', rate' = 1, pitch' = 1, volume' = 1, voice' = None\<rparr>"
  have h1: "isPaused ?w" by (simp add: ex_defs)
  have h2: "currentUtterance ?w = Some ?u" by (simp add: ex_defs)
  have h3: "trim (recipe ?w) \<noteq> []" by (simp add: ex_defs)
  show ?thesis
    using C6_resume [OF h1 h2 h3, of "ttsSettings ?w"] by (simp add: ex_defs)
qed

text \<open>
  C6 as stated fails: with the editor text cleared while paused, \<open>startSpeech\<close> does not
  resume; the state stays Paused and the engine stays paused.
\<close>

theorem C6_counterexample:
  "playback_state (run [ChangeRecipe []] paused_world) = Some Paused \<and>
   currentUtterance (run [ChangeRecipe []] paused_world) =
     Some \<lparr>text' = lit ''Mix'', rate' = 1, pitch' = 1, volume' = 1, voice' = None\<rparr> \<and>
   playback_state (startSpeech (run [ChangeRecipe []] paused_world)) = Some Paused \<and>
   paused (speechSynthesis (startSpeech (run [ChangeRecipe []] paused_world)))"
  by (simp add: ex_defs)

text \<open>
  C7. \<open>pauseSpeech\<close> from Idle or Paused is a no-op: it leaves the playback state, and
  everything else, unchanged. \<open>stopSpeech\<close> from any state yields Idle with the utterance
  reference cleared and the engine's queue emptied.
\<close>

theorem C7_pause_noop_stop_idle:
  "(playback_state w = Some Idle \<or> playback_state w = Some Paused \<longrightarrow> pauseSpeech w = w) \<and>
   playback_state (stopSpeech w) = Some Idle \<and>
   currentUtterance (stopSpeech w) = None \<and>
   queue (speechSynthesis (stopSpeech w)) = []"
  by (auto simp: playback_state_def pauseSpeech_def stopSpeech_def cancel_def split: if_splits)

theorem C7_witness:
  "playback_state paused_world = Some Paused \<and> pauseSpeech paused_world = paused_world \<and>
   playback_state (stopSpeech paused_world) = Some Idle \<and>
   currentUtterance (stopSpeech paused_world) = None"
proof -
  have h: "playback_state paused_world = Some Paused" by (simp add: ex_defs)
  show ?thesis
    using C7_pause_noop_stop_idle [of paused_world] h by simp
qed

text \<open>
  C8 fails on the code. The component is mounted with the catalog Alex, Samantha, which
  seeds the voice Alex; the user then selects Samantha; the next catalog refresh, with the
  same catalog, sets the voice back to Alex. The claim says that a refresh never overrides a
  voice once chosen.
\<close>

theorem C8_refresh_overrides_chosen_voice:
  "voice (ttsSettings (run [SelectVoice (lit ''Samantha'')]
      (projr (mount empty_storage (idle_engine [voice_A, voice_B]))))) = lit ''Samantha'' \<and>
   voice (ttsSettings (run [SelectVoice (lit ''Samantha''), VoicesChanged [voice_A, voice_B]]
      (projr (mount empty_storage (idle_engine [voice_A, voice_B]))))) = lit ''Alex'' \<and>
   lit ''Alex'' \<noteq> lit ''Samantha''"
  by (simp add: ex_defs)

text \<open>
  C9 fails on the code. After the user selects the voice Samantha, a read of the persisted
  store returns the record with that voice. A fresh component mounted on that store while
  the catalog Alex, Samantha is available ends with the voice Alex; one mounted while the
  catalog is still empty reads Samantha back and loses it at the first catalog refresh. The
  claim says the fresh component reads back the same record.
\<close>

theorem C9_reload_loses_voice:
  "ttsSettings_entry (localStorage (run [SelectVoice (lit ''Samantha'')]
      (projr (mount empty_storage (idle_engine [voice_A, voice_B]))))) =
     Some (JsonText \<lparr>rate = 1, pitch = 1, volume = 1, voice = lit ''Samantha''\<rparr>) \<and>
   map_sum id ttsSettings
     (mount (localStorage (run [SelectVoice (lit ''Samantha'')]
               (projr (mount empty_storage (idle_engine [voice_A, voice_B])))))
        (idle_engine [voice_A, voice_B])) =
     Inr \<lparr>rate = 1, pitch = 1, volume = 1, voice = lit ''Alex''\<rparr> \<and>
   map_sum id ttsSettings
     (mount (localStorage (run [SelectVoice (lit ''Samantha'')]
               (projr (mount empty_storage (idle_engine [voice_A, voice_B])))))
        (idle_engine [])) =
     Inr \<lparr>rate = 1, pitch = 1, volume = 1, voice = lit ''Samantha''\<rparr> \<and>
   ttsSettings (run [VoicesChanged [voice_A, voice_B]]
     (projr (mount (localStorage (run [SelectVoice (lit ''Samantha'')]
                      (projr (mount empty_storage (idle_engine [voice_A, voice_B])))))
               (idle_engine [])))) =
     \<lparr>rate = 1, pitch = 1, volume = 1, voice = lit ''Alex''\<rparr>"
  by (simp add: ex_defs)

text \<open>
  C10. In every state a mounted component can reach, whatever the operations (start, pause,
  stop), engine callbacks (onstart, onend, onerror) and other events and their order, the
  flags \<open>isPlaying\<close> and \<open>isPaused\<close> are not both true, so the pair encodes one of the
  three states Idle, Playing, Paused.
\<close>

theorem C10_flags_exclusive:
  assumes "mount ls eng = Inr w0"
  shows "\<not> (isPlaying (run es w0) \<and> isPaused (run es w0)) \<and>
         playback_state (run es w0) \<in> {Some Idle, Some Playing, Some Paused}"
proof -
  from assms have "\<not> (isPlaying w0 \<and> isPaused w0)" by (simp add: mount_Inr)
  then have "\<not> (isPlaying (run es w0) \<and> isPaused (run es w0))" by (rule run_flags)
  then show ?thesis by (auto simp: playback_state_def)
qed

theorem C10_witness:
  "mount empty_storage (idle_engine []) = Inr mounted \<and>
   playback_state (run [ChangeRecipe (lit ''Mix''), ClickStart, UtteranceStart, ClickPause,
                        UtteranceStart, ClickPause, ClickStart] mounted) = Some Playing"
proof -
  have h: "mount empty_storage (idle_engine []) = Inr mounted" by (simp add: ex_defs)
  show ?thesis
    using C10_flags_exclusive [OF h, of "[ChangeRecipe (lit ''Mix''), ClickStart,
        UtteranceStart, ClickPause, UtteranceStart, ClickPause, ClickStart]"] h
    by (simp add: ex_defs)
qed

end
